theory Spec2Isabelle
  imports Complex_Main "HOL-Library.Word"
begin

section \<open>JavaScript strings\<close>

text \<open>
  A JavaScript string is a sequence of UTF-16 code units.  String literals of the
  source are all ASCII; \<open>js\<close> embeds an ASCII literal code unit by code unit.
\<close>

type_synonym jsstring = "16 word list"

definition js :: "string \<Rightarrow> jsstring" where
  "js s = map of_char s"

text \<open>
  \<open>String.prototype.trim\<close> strips the code units of the ECMAScript productions
  WhiteSpace (TAB, VT, FF, SP, NBSP, ZWNBSP and the Unicode category Zs) and
  LineTerminator (LF, CR, LS, PS) from both ends.
\<close>

definition is_whitespace :: "16 word \<Rightarrow> bool" where
  "is_whitespace c \<longleftrightarrow>
     c = 0x0009 \<or> c = 0x000A \<or> c = 0x000B \<or> c = 0x000C \<or> c = 0x000D \<or>
     c = 0x0020 \<or> c = 0x00A0 \<or> c = 0x1680 \<or> (0x2000 \<le> c \<and> c \<le> 0x200A) \<or>
     c = 0x2028 \<or> c = 0x2029 \<or> c = 0x202F \<or> c = 0x205F \<or> c = 0x3000 \<or>
     c = 0xFEFF"

definition trim :: "jsstring \<Rightarrow> jsstring" where
  "trim s = rev (dropWhile is_whitespace (rev (dropWhile is_whitespace s)))"

text \<open>
  \<open>String.prototype.toLowerCase\<close> maps the ASCII letters \<open>A\<close>..\<open>Z\<close> to
  \<open>a\<close>..\<open>z\<close> and leaves every other ASCII code unit alone.  Outside ASCII the
  result comes from the Unicode case tables of the JavaScript engine, which are
  not part of this repository: they are the parameter \<open>unicode_toLowerCase\<close>
  of the runtime below.
\<close>

definition ascii_lower :: "16 word \<Rightarrow> 16 word" where
  "ascii_lower c = (if 0x41 \<le> c \<and> c \<le> 0x5A then c + 0x20 else c)"

section \<open>JavaScript numbers and values\<close>

text \<open>
  A number is an IEEE double; every finite double is a rational, and the operations
  the source applies to numbers (\<open>toFixed\<close>, the truthiness test) are defined by
  ECMAScript on that exact mathematical value.  \<open>-0\<close> is identified with \<open>0\<close>:
  both print without a sign.  An object is the list of its own properties, one
  entry per key.
\<close>

datatype jsnum = Finite rat | PosInfinity | NegInfinity | NaN

datatype jsval =
    JUndefined
  | JNull
  | JBool bool
  | JNum jsnum
  | JStr jsstring
  | JArr "jsval list"
  | JObj "(jsstring \<times> jsval) list"

datatype js_error = JsError (message: jsstring)

datatype type_fault = ReadPropertyOfNullish | NotAFunction

text \<open>
  What the engine supplies: the Unicode part of \<open>toLowerCase\<close>, the
  Number-to-String conversion of a finite non-negative number (shortest round-trip
  digits, exponent notation from \<open>1e21\<close> on), and the message text of the
  \<open>TypeError\<close>s it raises itself.
\<close>

record runtime =
  unicode_toLowerCase :: "jsstring \<Rightarrow> jsstring"
  number_toString :: "rat \<Rightarrow> jsstring"
  type_error_message :: "type_fault \<Rightarrow> jsstring"

definition toLowerCase :: "runtime \<Rightarrow> jsstring \<Rightarrow> jsstring" where
  "toLowerCase rt s =
     (if list_all (\<lambda>c. c < 0x80) s then map ascii_lower s else unicode_toLowerCase rt s)"

fun truthy :: "jsval \<Rightarrow> bool" where
  "truthy JUndefined = False"
| "truthy JNull = False"
| "truthy (JBool b) = b"
| "truthy (JNum (Finite x)) = (x \<noteq> 0)"
| "truthy (JNum NaN) = False"
| "truthy (JNum PosInfinity) = True"
| "truthy (JNum NegInfinity) = True"
| "truthy (JStr s) = (s \<noteq> [])"
| "truthy (JArr xs) = True"
| "truthy (JObj kvs) = True"

definition nullish :: "jsval \<Rightarrow> bool" where
  "nullish v \<longleftrightarrow> v = JUndefined \<or> v = JNull"

text \<open>
  \<open>v.k\<close> for the property names the source reads (\<open>results\<close>, \<open>country_code\<close>,
  \<open>score\<close>, \<open>popularity\<close>), none of which a built-in prototype defines: an
  object gives its own property or \<open>undefined\<close>, \<open>null\<close> and \<open>undefined\<close>
  raise a \<open>TypeError\<close>, every other value gives \<open>undefined\<close>.
\<close>

fun get_prop :: "runtime \<Rightarrow> jsval \<Rightarrow> jsstring \<Rightarrow> js_error + jsval" where
  "get_prop rt JUndefined k = Inl (JsError (type_error_message rt ReadPropertyOfNullish))"
| "get_prop rt JNull k = Inl (JsError (type_error_message rt ReadPropertyOfNullish))"
| "get_prop rt (JObj kvs) k =
     Inr (case map_of kvs k of None \<Rightarrow> JUndefined | Some v \<Rightarrow> v)"
| "get_prop rt v k = Inr JUndefined"

subsection \<open>Printing numbers\<close>

definition digit :: "nat \<Rightarrow> 16 word" where
  "digit d = 0x30 + of_nat d"

function dec :: "nat \<Rightarrow> jsstring" where
  "dec n = (if n < 10 then [digit n] else dec (n div 10) @ [digit (n mod 10)])"
  by pat_completeness auto
termination
  by (relation "measure id") auto

declare dec.simps [simp del]

text \<open>
  \<open>Number.prototype.toFixed(f)\<close>, step by step as ECMAScript defines it: a
  non-finite number prints as its name; the sign is split off; from \<open>10^21\<close> on
  the result is the plain Number-to-String conversion; otherwise \<open>n\<close> is the
  integer nearest to \<open>x * 10^f\<close> (the larger one on a tie), printed with at least
  \<open>f + 1\<close> digits and a point before the last \<open>f\<close>.
\<close>

definition toFixed_digits :: "nat \<Rightarrow> rat \<Rightarrow> jsstring" where
  "toFixed_digits f x =
     (let n = nat \<lfloor>x * 10 ^ f + 1 / 2\<rfloor>;
          m = dec n
      in if f = 0 then m
         else
           let m' = (if length m \<le> f then replicate (f + 1 - length m) 0x30 @ m else m);
               k = length m'
           in take (k - f) m' @ [0x2E] @ drop (k - f) m')"

fun toFixed :: "runtime \<Rightarrow> nat \<Rightarrow> jsnum \<Rightarrow> jsstring" where
  "toFixed rt f NaN = js ''NaN''"
| "toFixed rt f PosInfinity = js ''Infinity''"
| "toFixed rt f NegInfinity = js ''-Infinity''"
| "toFixed rt f (Finite x) =
     (let s = (if x < 0 then js ''-'' else []);
          a = \<bar>x\<bar>
      in if a \<ge> 10 ^ 21 then s @ number_toString rt a else s @ toFixed_digits f a)"

text \<open>The conversion a template literal applies to a number.\<close>

fun number_to_string :: "runtime \<Rightarrow> jsnum \<Rightarrow> jsstring" where
  "number_to_string rt NaN = js ''NaN''"
| "number_to_string rt PosInfinity = js ''Infinity''"
| "number_to_string rt NegInfinity = js ''-Infinity''"
| "number_to_string rt (Finite x) =
     (if x < 0 then js ''-'' @ number_toString rt (- x) else number_toString rt x)"

section \<open>The view state and the submit handler\<close>

text \<open>
  The four state slots of \<open>App\<close>.  \<open>results\<close> holds whatever \<open>res.json()\<close>
  delivered (the source stores \<open>json.results\<close> unchecked), so it is a JavaScript
  value; \<open>error\<close> is \<open>string | null\<close>.
\<close>

record view_state =
  query :: jsstring
  results :: jsval
  loading :: bool
  error :: "jsstring option"

definition initial_view :: view_state where
  "initial_view = \<lparr>query = js ''Ghost'', results = JArr [], loading = False, error = None\<rparr>"

text \<open>The argument of the one \<open>fetch\<close> call; \<open>body\<close> is the value handed to \<open>JSON.stringify\<close>.\<close>

record request =
  url :: jsstring
  http_method :: jsstring
  headers :: "(jsstring \<times> jsstring) list"
  body :: jsval

text \<open>
  What the network gives back.  \<open>fetch\<close> either rejects or resolves to a response
  with a status; reading the body with \<open>res.text()\<close> or \<open>res.json()\<close> resolves
  or rejects in turn (parsing is the engine's).
\<close>

record response =
  status :: nat
  text_body :: "js_error + jsstring"
  json_body :: "js_error + jsval"

datatype outcome = FetchRejected js_error | Responded response

definition ok :: "response \<Rightarrow> bool" where
  "ok r \<longleftrightarrow> 200 \<le> status r \<and> status r \<le> 299"

text \<open>\<open>!API_URL\<close> for \<open>API_URL : string | undefined\<close>: undefined and the empty string are falsy.\<close>

definition configured :: "jsstring option \<Rightarrow> bool" where
  "configured API_URL = (case API_URL of None \<Rightarrow> False | Some u \<Rightarrow> u \<noteq> [])"

definition config_error :: jsstring where
  "config_error = js ''VITE_API_URL is not configured.''"

definition validation_error :: jsstring where
  "validation_error = js ''Please type a band name.''"

definition recommendations_request :: "jsstring \<Rightarrow> jsstring \<Rightarrow> request" where
  "recommendations_request base trimmed =
     \<lparr>url = base @ js ''/recommendations'',
      http_method = js ''POST'',
      headers = [(js ''Content-Type'', js ''application/json'')],
      body = JObj [(js ''query'', JStr trimmed), (js ''limit'', JNum (Finite 10))]\<rparr>"

text \<open>
  \<open>handleSubmit\<close> up to its first \<open>await\<close>: the new view state and the requests
  issued.
\<close>

definition handleSubmit_sync :: "jsstring option \<Rightarrow> view_state \<Rightarrow> view_state \<times> request list" where
  "handleSubmit_sync API_URL s =
     (let s1 = s\<lparr>error := None\<rparr>
      in case API_URL of
           None \<Rightarrow> (s1\<lparr>error := Some config_error\<rparr>, [])
         | Some base \<Rightarrow>
             if base = [] then (s1\<lparr>error := Some config_error\<rparr>, [])
             else
               let trimmed = trim (query s)
               in if trimmed = [] then (s1\<lparr>error := Some validation_error\<rparr>, [])
                  else (s1\<lparr>loading := True\<rparr>, [recommendations_request base trimmed]))"

text \<open>The body of the \<open>try\<close> block from the settled \<open>fetch\<close> on: the value for \<open>setResults\<close>, or what was thrown.\<close>

definition try_block :: "runtime \<Rightarrow> outcome \<Rightarrow> js_error + jsval" where
  "try_block rt out =
     (case out of
        FetchRejected e \<Rightarrow> Inl e
      | Responded res \<Rightarrow>
          if \<not> ok res then
            (case text_body res of
               Inl e \<Rightarrow> Inl e
             | Inr txt \<Rightarrow> Inl (JsError (if txt \<noteq> [] then txt else js ''HTTP '' @ dec (status res))))
          else
            (case json_body res of
               Inl e \<Rightarrow> Inl e
             | Inr json \<Rightarrow>
                 (case get_prop rt json (js ''results'') of
                    Inl e \<Rightarrow> Inl e
                  | Inr v \<Rightarrow> Inr (if nullish v then JArr [] else v))))"

text \<open>\<open>handleSubmit\<close> from the settled request to its end: \<open>try\<close>, \<open>catch\<close>, \<open>finally\<close>.\<close>

definition handleSubmit_resume :: "runtime \<Rightarrow> outcome \<Rightarrow> view_state \<Rightarrow> view_state" where
  "handleSubmit_resume rt out s =
     (let s' = (case try_block rt out of
                  Inr v \<Rightarrow> s\<lparr>results := v\<rparr>
                | Inl err \<Rightarrow>
                    s\<lparr>error := Some (if message err \<noteq> [] then message err else js ''Unknown error''),
                      results := JArr []\<rparr>)
      in s'\<lparr>loading := False\<rparr>)"

text \<open>One whole run of \<open>handleSubmit\<close>, the network answering \<open>out\<close> if it is asked.\<close>

definition handleSubmit :: "runtime \<Rightarrow> jsstring option \<Rightarrow> outcome \<Rightarrow> view_state \<Rightarrow> view_state \<times> request list" where
  "handleSubmit rt API_URL out s =
     (case handleSubmit_sync API_URL s of
        (s', []) \<Rightarrow> (s', [])
      | (s', reqs) \<Rightarrow> (handleSubmit_resume rt out s', reqs))"

section \<open>Rendering\<close>

text \<open>\<open>{error && <div>Error: {error}</div>}\<close>: the text of the banner, if one is rendered.\<close>

definition error_banner :: "view_state \<Rightarrow> jsstring option" where
  "error_banner s =
     (case error s of
        None \<Rightarrow> None
      | Some e \<Rightarrow> if e \<noteq> [] then Some (js ''Error: '' @ e) else None)"

text \<open>
  \<open>getFlagUrl\<close>; \<open>None\<close> is its \<open>null\<close>.  The parameter is declared
  \<open>string | undefined\<close> but comes unchecked out of the response, so a truthy value
  that is not a string reaches \<open>.toLowerCase()\<close> and raises.
\<close>

definition getFlagUrl :: "runtime \<Rightarrow> jsval \<Rightarrow> js_error + jsstring option" where
  "getFlagUrl rt countryCode =
     (if \<not> truthy countryCode then Inr None
      else case countryCode of
             JStr c \<Rightarrow> Inr (Some (js ''https://flagcdn.com/24x18/'' @ toLowerCase rt c @ js ''.png''))
           | _ \<Rightarrow> Inl (JsError (type_error_message rt NotAFunction)))"

text \<open>
  \<open>const flagUrl = getFlagUrl(band.country_code)\<close> and \<open>{flagUrl && <img src={flagUrl} .../>}\<close>:
  the \<open>src\<close> of the flag image of one band, if the image is rendered.
\<close>

definition flag_image_src :: "runtime \<Rightarrow> jsval \<Rightarrow> js_error + jsstring option" where
  "flag_image_src rt band =
     (case get_prop rt band (js ''country_code'') of
        Inl e \<Rightarrow> Inl e
      | Inr cc \<Rightarrow>
          (case getFlagUrl rt cc of
             Inl e \<Rightarrow> Inl e
           | Inr None \<Rightarrow> Inr None
           | Inr (Some flagUrl) \<Rightarrow> if flagUrl \<noteq> [] then Inr (Some flagUrl) else Inr None))"

text \<open>\<open>typeof v === "number"\<close>, giving the number.\<close>

fun as_number :: "jsval \<Rightarrow> jsnum option" where
  "as_number (JNum n) = Some n"
| "as_number v = None"

text \<open>
  The two fragments of the caption line of one band:
  \<open>{typeof band.score === "number" && `similarity: ${band.score.toFixed(3)} `}\<close> and
  \<open>{typeof band.popularity === "number" && `(popularity: ${band.popularity})`}\<close>.
  A fragment whose test fails renders nothing.
\<close>

definition similarity_fragment :: "runtime \<Rightarrow> jsval \<Rightarrow> js_error + jsstring option" where
  "similarity_fragment rt band =
     (case get_prop rt band (js ''score'') of
        Inl e \<Rightarrow> Inl e
      | Inr v \<Rightarrow>
          (case as_number v of
             None \<Rightarrow> Inr None
           | Some n \<Rightarrow> Inr (Some (js ''similarity: '' @ toFixed rt 3 n @ js '' ''))))"

definition popularity_fragment :: "runtime \<Rightarrow> jsval \<Rightarrow> js_error + jsstring option" where
  "popularity_fragment rt band =
     (case get_prop rt band (js ''popularity'') of
        Inl e \<Rightarrow> Inl e
      | Inr v \<Rightarrow>
          (case as_number v of
             None \<Rightarrow> Inr None
           | Some n \<Rightarrow> Inr (Some (js ''(popularity: '' @ number_to_string rt n @ js '')''))))"

section \<open>The component over time\<close>

text \<open>
  The view state together with the requests in flight, and the three things that
  can happen: the user edits the input (\<open>onChange\<close>), the form is submitted, a
  request in flight settles and its \<open>handleSubmit\<close> resumes.  The submit button
  carries \<open>disabled={loading}\<close>, and a form whose submit button is disabled cannot
  be submitted by the user.  With \<open>guarded\<close> set, a submission is possible
  only while the button is enabled; without it \<open>handleSubmit\<close> may be entered at
  any time.  \<open>Settle i out\<close> settles the \<open>i\<close>-th request in flight with \<open>out\<close>.
\<close>

record app =
  view :: view_state
  in_flight :: "request list"

datatype event = Change jsstring | Submit | Settle nat outcome

definition initial_app :: app where
  "initial_app = \<lparr>view = initial_view, in_flight = []\<rparr>"

fun step :: "bool \<Rightarrow> runtime \<Rightarrow> jsstring option \<Rightarrow> app \<Rightarrow> event \<Rightarrow> app option" where
  "step guarded rt API_URL a (Change v) = Some (a\<lparr>view := (view a)\<lparr>query := v\<rparr>\<rparr>)"
| "step guarded rt API_URL a Submit =
     (if guarded \<and> loading (view a) then None
      else case handleSubmit_sync API_URL (view a) of
             (s', reqs) \<Rightarrow> Some \<lparr>view = s', in_flight = in_flight a @ reqs\<rparr>)"
| "step guarded rt API_URL a (Settle i out) =
     (if i < length (in_flight a)
      then Some \<lparr>view = handleSubmit_resume rt out (view a),
                 in_flight = take i (in_flight a) @ drop (Suc i) (in_flight a)\<rparr>
      else None)"

fun run :: "bool \<Rightarrow> runtime \<Rightarrow> jsstring option \<Rightarrow> app \<Rightarrow> event list \<Rightarrow> app option" where
  "run guarded rt API_URL a [] = Some a"
| "run guarded rt API_URL a (ev # evs) =
     (case step guarded rt API_URL a ev of
        None \<Rightarrow> None
      | Some a' \<Rightarrow> run guarded rt API_URL a' evs)"

section \<open>A runtime and inputs for closed examples\<close>

text \<open>
  The properties below hold for every runtime.  To evaluate them on concrete inputs
  one runtime is fixed: ASCII-only case mapping, integers printed in decimal, one
  message for every engine-raised \<open>TypeError\<close>.
\<close>

definition example_runtime :: runtime where
  "example_runtime =
     \<lparr>unicode_toLowerCase = (\<lambda>s. s),
      number_toString = (\<lambda>x. dec (nat \<lfloor>x\<rfloor>)),
      type_error_message = (\<lambda>f. js ''TypeError'')\<rparr>"

definition example_base :: jsstring where
  "example_base = js ''https://api.example''"

definition shown_view :: view_state where
  "shown_view =
     \<lparr>query = js ''  '',
      results = JArr [JObj [(js ''id'', JNum (Finite 1)), (js ''name'', JStr (js ''Ghost''))]],
      loading = False,
      error = None\<rparr>"

text \<open>Responses for the examples: what \<open>res.text()\<close> and \<open>res.json()\<close> give for each body.\<close>

definition rate_limited_response :: response where
  "rate_limited_response =
     \<lparr>status = 429,
      text_body = Inr (js ''rate limited''),
      json_body = Inl (JsError (js ''Unexpected token r in JSON at position 0''))\<rparr>"

definition empty_error_response :: response where
  "empty_error_response =
     \<lparr>status = 500,
      text_body = Inr [],
      json_body = Inl (JsError (js ''Unexpected end of JSON input''))\<rparr>"

definition ghost_band :: jsval where
  "ghost_band =
     JObj [(js ''id'', JNum (Finite 7)), (js ''name'', JStr (js ''Ghost'')),
           (js ''country_code'', JStr (js ''SE'')),
           (js ''score'', JNum (Finite (12345 / 100000)))]"

definition results_response :: response where
  \<open>results_response =
     \<lparr>status = 200,
      text_body = Inr (js ''{"results":[{"id":7,"name":"Ghost","country_code":"SE","score":0.12345}]}''),
      json_body = Inr (JObj [(js ''results'', JArr [ghost_band])])\<rparr>\<close>

definition null_results_response :: response where
  \<open>null_results_response =
     \<lparr>status = 200,
      text_body = Inr (js ''{"results":null}''),
      json_body = Inr (JObj [(js ''results'', JNull)])\<rparr>\<close>

definition no_results_response :: response where
  \<open>no_results_response =
     \<lparr>status = 200,
      text_body = Inr (js ''{"count":0}''),
      json_body = Inr (JObj [(js ''count'', JNum (Finite 0))])\<rparr>\<close>

definition german_band :: jsval where
  "german_band =
     JObj [(js ''id'', JNum (Finite 3)), (js ''name'', JStr (js ''Rammstein'')),
           (js ''country_code'', JStr (js ''DE'')),
           (js ''score'', JNum (Finite (2223877495995551 / 18014398509481984)))]"

definition bare_band :: jsval where
  "bare_band = JObj [(js ''id'', JNum (Finite 4)), (js ''name'', JStr (js ''Opeth'')), (js ''score'', JNull)]"

definition overflow_band :: jsval where
  "overflow_band = JObj [(js ''id'', JNum (Finite 5)), (js ''name'', JStr (js ''Tool'')), (js ''score'', JNum PosInfinity)]"

section \<open>Notions used to state the properties\<close>

text \<open>The field \<open>k\<close> of a parsed body, if the body is an object that has one.\<close>

fun own_field :: "jsval \<Rightarrow> jsstring \<Rightarrow> jsval option" where
  "own_field (JObj kvs) k = map_of kvs k"
| "own_field v k = None"

text \<open>The parsed body of a successful response: status 2xx and a body that parsed.\<close>

fun delivered :: "outcome \<Rightarrow> jsval option" where
  "delivered (FetchRejected e) = None"
| "delivered (Responded res) =
     (if ok res then (case json_body res of Inl e \<Rightarrow> None | Inr json \<Rightarrow> Some json) else None)"

text \<open>The outcome settled last in a sequence of events, and the body of the most recent successful response.\<close>

fun last_settled :: "event list \<Rightarrow> outcome option" where
  "last_settled [] = None"
| "last_settled (ev # evs) =
     (case last_settled evs of
        Some out \<Rightarrow> Some out
      | None \<Rightarrow> (case ev of Settle i out \<Rightarrow> Some out | _ \<Rightarrow> None))"

fun last_delivered :: "event list \<Rightarrow> jsval option" where
  "last_delivered [] = None"
| "last_delivered (ev # evs) =
     (case last_delivered evs of
        Some json \<Rightarrow> Some json
      | None \<Rightarrow> (case ev of Settle i out \<Rightarrow> delivered out | _ \<Rightarrow> None))"

text \<open>The numeric field \<open>k\<close> of a record, if the record has one.\<close>

definition numeric_field :: "jsval \<Rightarrow> jsstring \<Rightarrow> jsnum option" where
  "numeric_field band k =
     (case own_field band k of
        None \<Rightarrow> None
      | Some v \<Rightarrow> as_number v)"

text \<open>The result list a settled request leaves behind: the value of the \<open>try\<close> block, or empty after a throw.\<close>

definition settled_results :: "runtime \<Rightarrow> outcome \<Rightarrow> jsval" where
  "settled_results rt out = (case try_block rt out of Inl e \<Rightarrow> JArr [] | Inr v \<Rightarrow> v)"

text \<open>
  A decimal numeral with exactly three decimal places: an optional minus sign, one
  or more digits, a point, three digits.
\<close>

definition is_digit :: "16 word \<Rightarrow> bool" where
  "is_digit c \<longleftrightarrow> 0x30 \<le> c \<and> c \<le> 0x39"

definition three_decimals :: "jsstring \<Rightarrow> bool" where
  "three_decimals t =
     (let u = (case t of [] \<Rightarrow> [] | c # r \<Rightarrow> if c = 0x2D then r else t);
          ip = takeWhile is_digit u;
          rest = dropWhile is_digit u
      in ip \<noteq> [] \<and>
         (case rest of
            [] \<Rightarrow> False
          | d # fp \<Rightarrow> d = 0x2E \<and> length fp = 3 \<and> list_all is_digit fp))"

section \<open>Facts about the building blocks\<close>

lemma trim_empty_iff: "trim q = [] \<longleftrightarrow> list_all is_whitespace q"
proof -
  let ?d = "dropWhile is_whitespace q"
  have "?d = []" if all: "\<forall>x\<in>set ?d. is_whitespace x"
  proof (rule ccontr)
    assume ne: "?d \<noteq> []"
    then have "\<not> is_whitespace (hd ?d)" by (rule hd_dropWhile)
    moreover from ne have "hd ?d \<in> set ?d" by simp
    ultimately show False using all by blast
  qed
  moreover have "\<forall>x\<in>set ?d. is_whitespace x" if e: "?d = []"
    unfolding e by simp
  ultimately have "(\<forall>x\<in>set ?d. is_whitespace x) \<longleftrightarrow> ?d = []"
    by blast
  then show ?thesis
    by (simp add: trim_def list_all_iff)
qed

lemma configured_Some [simp]: "configured (Some base) \<longleftrightarrow> base \<noteq> []"
  by (simp add: configured_def)

lemma configured_None [simp]: "\<not> configured None"
  by (simp add: configured_def)

lemma sync_unconfigured:
  "\<not> configured API_URL \<Longrightarrow> handleSubmit_sync API_URL s = (s\<lparr>error := Some config_error\<rparr>, [])"
  by (cases API_URL) (simp_all add: handleSubmit_sync_def)

lemma sync_blank:
  "configured API_URL \<Longrightarrow> trim (query s) = [] \<Longrightarrow>
     handleSubmit_sync API_URL s = (s\<lparr>error := Some validation_error\<rparr>, [])"
  by (cases API_URL) (simp_all add: handleSubmit_sync_def)

lemma sync_dispatch:
  "base \<noteq> [] \<Longrightarrow> trim (query s) \<noteq> [] \<Longrightarrow>
     handleSubmit_sync (Some base) s =
       (s\<lparr>error := None, loading := True\<rparr>, [recommendations_request base (trim (query s))])"
  by (simp add: handleSubmit_sync_def)

lemma handleSubmit_local:
  "\<not> configured API_URL \<or> trim (query s) = [] \<Longrightarrow>
     handleSubmit rt API_URL out s = handleSubmit_sync API_URL s"
  by (cases "configured API_URL") (auto simp: handleSubmit_def sync_unconfigured sync_blank)

lemma handleSubmit_dispatch:
  "base \<noteq> [] \<Longrightarrow> trim (query s) \<noteq> [] \<Longrightarrow>
     handleSubmit rt (Some base) out s =
       (handleSubmit_resume rt out (s\<lparr>error := None, loading := True\<rparr>),
        [recommendations_request base (trim (query s))])"
  by (simp add: handleSubmit_def sync_dispatch)

lemma dec_below_10: "n < 10 \<Longrightarrow> dec n = [digit n]"
  by (simp add: dec.simps)

lemma dec_from_10: "\<not> n < 10 \<Longrightarrow> dec n = dec (n div 10) @ [digit (n mod 10)]"
  by (subst dec.simps) simp

lemma try_block_not_ok:
  "\<not> ok res \<Longrightarrow> text_body res = Inr txt \<Longrightarrow>
     try_block rt (Responded res) =
       Inl (JsError (if txt \<noteq> [] then txt else js ''HTTP '' @ dec (status res)))"
  by (simp add: try_block_def)

lemma results_resume: "results (handleSubmit_resume rt out s) = settled_results rt out"
  by (simp add: handleSubmit_resume_def settled_results_def split: sum.split)

lemma loading_resume: "\<not> loading (handleSubmit_resume rt out s)"
  by (simp add: handleSubmit_resume_def)

lemma error_resume_thrown:
  "try_block rt out = Inl err \<Longrightarrow>
     error (handleSubmit_resume rt out s) =
       Some (if message err \<noteq> [] then message err else js ''Unknown error'')"
  by (simp add: handleSubmit_resume_def)

lemma read_results_field:
  "(case get_prop rt json k of Inl e \<Rightarrow> JArr [] | Inr v \<Rightarrow> if nullish v then JArr [] else v) =
   (case own_field json k of None \<Rightarrow> JArr [] | Some v \<Rightarrow> if nullish v then JArr [] else v)"
  by (cases json) (simp_all add: nullish_def split: option.split)

lemma settled_results_delivered:
  assumes "delivered out = Some json"
  shows "settled_results rt out =
           (case own_field json (js ''results'') of
              None \<Rightarrow> JArr []
            | Some v \<Rightarrow> if nullish v then JArr [] else v)"
proof -
  from assms obtain res where out: "out = Responded res" and "ok res" and "json_body res = Inr json"
    by (cases out) (auto split: if_splits sum.splits)
  then have "settled_results rt out =
      (case get_prop rt json (js ''results'') of
         Inl e \<Rightarrow> JArr [] | Inr v \<Rightarrow> if nullish v then JArr [] else v)"
    by (simp add: settled_results_def try_block_def split: sum.split)
  then show ?thesis
    by (simp only: read_results_field)
qed

lemma settled_results_failed:
  assumes "delivered out = None"
  shows "settled_results rt out = JArr []"
proof (cases out)
  case (FetchRejected e)
  then show ?thesis by (simp add: settled_results_def try_block_def)
next
  case (Responded res)
  with assms show ?thesis
    by (auto simp: settled_results_def try_block_def split: sum.splits if_splits)
qed

lemma sync_keeps_results: "results (fst (handleSubmit_sync API_URL s)) = results s"
  by (simp add: handleSubmit_sync_def Let_def split: option.split)

lemma sync_loading:
  "loading (fst (handleSubmit_sync API_URL s)) = (loading s \<or> snd (handleSubmit_sync API_URL s) \<noteq> [])"
  by (simp add: handleSubmit_sync_def Let_def split: option.split)

lemma sync_at_most_one: "length (snd (handleSubmit_sync API_URL s)) \<le> 1"
  by (simp add: handleSubmit_sync_def Let_def split: option.split)

lemma step_results:
  assumes "step guarded rt API_URL a ev = Some a'"
  shows "results (view a') = (case ev of Settle i out \<Rightarrow> settled_results rt out | _ \<Rightarrow> results (view a))"
proof (cases ev)
  case (Change v)
  with assms show ?thesis by auto
next
  case Submit
  with assms show ?thesis
    using sync_keeps_results [of API_URL "view a"]
    by (auto split: if_splits prod.splits)
next
  case (Settle i out)
  with assms show ?thesis
    by (auto simp: results_resume split: if_splits)
qed

lemma run_results:
  "run guarded rt API_URL a0 evs = Some a \<Longrightarrow>
     results (view a) =
       (case last_settled evs of None \<Rightarrow> results (view a0) | Some out \<Rightarrow> settled_results rt out)"
proof (induction evs arbitrary: a0)
  case Nil
  then show ?case by simp
next
  case (Cons ev evs)
  from Cons.prems obtain a1 where s: "step guarded rt API_URL a0 ev = Some a1"
    and r: "run guarded rt API_URL a1 evs = Some a"
    by (auto split: option.splits)
  from Cons.IH [OF r] step_results [OF s] show ?case
    by (cases ev) (simp_all split: option.split)
qed

lemma last_delivered_none: "last_settled evs = None \<Longrightarrow> last_delivered evs = None"
  by (induction evs) (auto split: option.splits event.splits)

lemma last_delivered_settled:
  "last_settled evs = Some out \<Longrightarrow> delivered out = Some json \<Longrightarrow> last_delivered evs = Some json"
proof (induction evs)
  case Nil
  then show ?case by simp
next
  case (Cons ev evs)
  show ?case
  proof (cases "last_settled evs")
    case None
    with Cons.prems last_delivered_none [OF None] show ?thesis
      by (cases ev) simp_all
  next
    case (Some out')
    with Cons show ?thesis by simp
  qed
qed

lemma step_invariant_with_button:
  assumes "loading (view a) \<longleftrightarrow> in_flight a \<noteq> []" and "length (in_flight a) \<le> 1"
    and "step True rt API_URL a ev = Some a'"
  shows "(loading (view a') \<longleftrightarrow> in_flight a' \<noteq> []) \<and> length (in_flight a') \<le> 1"
proof (cases ev)
  case (Change v)
  with assms show ?thesis by auto
next
  case Submit
  with assms(3) have idle: "\<not> loading (view a)"
    and a': "a' = \<lparr>view = fst (handleSubmit_sync API_URL (view a)),
                    in_flight = in_flight a @ snd (handleSubmit_sync API_URL (view a))\<rparr>"
    by (auto split: if_splits prod.splits)
  from idle assms(1) have "in_flight a = []" by simp
  with a' idle sync_loading [of API_URL "view a"] sync_at_most_one [of API_URL "view a"]
  show ?thesis by simp
next
  case (Settle i out)
  with assms(3) have i: "i < length (in_flight a)"
    and a': "a' = \<lparr>view = handleSubmit_resume rt out (view a),
                    in_flight = take i (in_flight a) @ drop (Suc i) (in_flight a)\<rparr>"
    by (auto split: if_splits)
  from i assms(2) have "i = 0" "length (in_flight a) = 1" by simp_all
  with a' show ?thesis
    by (simp add: loading_resume)
qed

lemma run_invariant_with_button:
  "loading (view a0) \<longleftrightarrow> in_flight a0 \<noteq> [] \<Longrightarrow> length (in_flight a0) \<le> 1 \<Longrightarrow>
   run True rt API_URL a0 evs = Some a \<Longrightarrow>
     (loading (view a) \<longleftrightarrow> in_flight a \<noteq> []) \<and> length (in_flight a) \<le> 1"
proof (induction evs arbitrary: a0)
  case Nil
  then show ?case by simp
next
  case (Cons ev evs)
  from Cons.prems(3) obtain a1 where s: "step True rt API_URL a0 ev = Some a1"
    and r: "run True rt API_URL a1 evs = Some a"
    by (auto split: option.splits)
  from step_invariant_with_button [OF Cons.prems(1,2) s]
  have "loading (view a1) \<longleftrightarrow> in_flight a1 \<noteq> []" and "length (in_flight a1) \<le> 1"
    by simp_all
  then show ?case using r by (rule Cons.IH)
qed

lemma is_digit_digit: "d < 10 \<Longrightarrow> is_digit (digit d)"
proof -
  assume "d < 10"
  then have "d \<in> {0, 1, 2, 3, 4, 5, 6, 7, 8, 9}" by auto
  then show ?thesis
    by (auto simp: is_digit_def digit_def)
qed

lemma dec_digits: "list_all is_digit (dec n) \<and> dec n \<noteq> []"
proof (induction n rule: dec.induct)
  case (1 n)
  show ?case
  proof (cases "n < 10")
    case True
    then show ?thesis by (simp add: dec_below_10 is_digit_digit)
  next
    case False
    with "1" show ?thesis
      by (simp add: dec_from_10 is_digit_digit)
  qed
qed

lemma toFixed_digits_shape:
  "\<exists>ip fp. toFixed_digits 3 a = ip @ [0x2E] @ fp \<and> ip \<noteq> [] \<and> list_all is_digit ip \<and>
           length fp = 3 \<and> list_all is_digit fp"
proof -
  define m where "m = dec (nat \<lfloor>a * 10 ^ 3 + 1 / 2\<rfloor>)"
  define m' where "m' = (if length m \<le> 3 then replicate (3 + 1 - length m) 0x30 @ m else m)"
  have m: "list_all is_digit m" "m \<noteq> []"
    using dec_digits by (simp_all add: m_def)
  have z: "is_digit 0x30" by (simp add: is_digit_def)
  have d: "list_all is_digit m'"
    using m z by (simp add: m'_def list_all_iff)
  have l: "4 \<le> length m'"
    by (simp add: m'_def)
  have eq: "toFixed_digits 3 a = take (length m' - 3) m' @ [0x2E] @ drop (length m' - 3) m'"
    by (simp add: toFixed_digits_def m_def m'_def Let_def)
  have "take (length m' - 3) m' \<noteq> []" using l by auto
  moreover have "list_all is_digit (take (length m' - 3) m')"
    using d by (auto simp: list_all_iff dest: in_set_takeD)
  moreover have "length (drop (length m' - 3) m') = 3" using l by simp
  moreover have "list_all is_digit (drop (length m' - 3) m')"
    using d by (auto simp: list_all_iff dest: in_set_dropD)
  ultimately show ?thesis using eq by blast
qed

lemma three_decimals_unsigned:
  assumes "ip \<noteq> []" "list_all is_digit ip" "length fp = 3" "list_all is_digit fp"
  shows "three_decimals (ip @ [0x2E] @ fp)"
proof -
  from assms(1) obtain c r where ip: "ip = c # r" by (cases ip) auto
  with assms(2) have c: "c \<noteq> 0x2D" by (auto simp: is_digit_def)
  have nd: "\<not> is_digit 0x2E" by (simp add: is_digit_def)
  have tw: "takeWhile is_digit (ip @ [0x2E] @ fp) = ip"
    using assms(2) nd by (simp add: takeWhile_append2 list_all_iff)
  have dw: "dropWhile is_digit (ip @ [0x2E] @ fp) = 0x2E # fp"
    using assms(2) nd by (simp add: dropWhile_append2 list_all_iff)
  have u: "(case ip @ [0x2E] @ fp of [] \<Rightarrow> [] | c # r \<Rightarrow> if c = 0x2D then r else ip @ [0x2E] @ fp)
             = ip @ [0x2E] @ fp"
    using ip c by simp
  show ?thesis
    unfolding three_decimals_def u Let_def tw dw using assms by simp
qed

lemma three_decimals_signed:
  assumes "ip \<noteq> []" "list_all is_digit ip" "length fp = 3" "list_all is_digit fp"
  shows "three_decimals (js ''-'' @ ip @ [0x2E] @ fp)"
proof -
  have nd: "\<not> is_digit 0x2E" by (simp add: is_digit_def)
  have tw: "takeWhile is_digit (ip @ [0x2E] @ fp) = ip"
    using assms(2) nd by (simp add: takeWhile_append2 list_all_iff)
  have dw: "dropWhile is_digit (ip @ [0x2E] @ fp) = 0x2E # fp"
    using assms(2) nd by (simp add: dropWhile_append2 list_all_iff)
  have u: "(case js ''-'' @ ip @ [0x2E] @ fp of [] \<Rightarrow> [] | c # r \<Rightarrow> if c = 0x2D then r else js ''-'' @ ip @ [0x2E] @ fp)
             = ip @ [0x2E] @ fp"
    by (simp add: js_def)
  show ?thesis
    unfolding three_decimals_def u Let_def tw dw using assms by simp
qed

lemma toFixed_three_decimals:
  assumes "\<bar>x\<bar> < 10 ^ 21"
  shows "three_decimals (toFixed rt 3 (Finite x))"
proof -
  obtain ip fp where s: "toFixed_digits 3 \<bar>x\<bar> = ip @ [0x2E] @ fp"
    and p: "ip \<noteq> []" "list_all is_digit ip" "length fp = 3" "list_all is_digit fp"
    using toFixed_digits_shape [of "\<bar>x\<bar>"] by blast
  have "toFixed rt 3 (Finite x) = (if x < 0 then js ''-'' else []) @ toFixed_digits 3 \<bar>x\<bar>"
    using assms by (simp add: Let_def)
  then have tf: "toFixed rt 3 (Finite x) = (if x < 0 then js ''-'' else []) @ ip @ [0x2E] @ fp"
    by (simp only: s)
  show ?thesis
  proof (cases "x < 0")
    case True
    with tf have "toFixed rt 3 (Finite x) = js ''-'' @ ip @ [0x2E] @ fp"
      by (simp only: if_True)
    then show ?thesis using three_decimals_signed [OF p] by (simp only:)
  next
    case False
    with tf have "toFixed rt 3 (Finite x) = ip @ [0x2E] @ fp"
      by (simp only: if_False append_Nil)
    then show ?thesis using three_decimals_unsigned [OF p] by (simp only:)
  qed
qed

text \<open>
  The equivalence of the loading flag and a request in flight rests on the disabled
  submit button: were \<open>handleSubmit\<close> entered again while a request is in flight,
  the first request to settle would clear the flag with the second still out.
\<close>

lemma overlapping_submissions_without_button:
  "run False example_runtime (Some example_base) initial_app
       [Submit, Submit, Settle 0 (FetchRejected (JsError (js ''Failed to fetch'')))] =
     Some \<lparr>view = \<lparr>query = js ''Ghost'', results = JArr [], loading = False,
                    error = Some (js ''Failed to fetch'')\<rparr>,
           in_flight = [recommendations_request example_base (js ''Ghost'')]\<rparr> \<and>
   run True example_runtime (Some example_base) initial_app [Submit, Submit] = None"
proof -
  have q: "trim (js ''Ghost'') = js ''Ghost''"
    by (simp add: trim_def is_whitespace_def js_def)
  have b: "example_base \<noteq> []"
    by (simp add: example_base_def js_def)
  have sync: "handleSubmit_sync (Some example_base) (initial_view\<lparr>loading := l\<rparr>) =
                (initial_view\<lparr>loading := True\<rparr>, [recommendations_request example_base (js ''Ghost'')])" for l
    using b by (simp add: handleSubmit_sync_def initial_view_def q Let_def) (simp add: js_def)
  have sync0: "handleSubmit_sync (Some example_base) initial_view =
                (initial_view\<lparr>loading := True\<rparr>, [recommendations_request example_base (js ''Ghost'')])"
    using sync [of False] by (simp add: initial_view_def)
  show ?thesis
    by (simp add: initial_app_def sync0 sync handleSubmit_resume_def try_block_def)
       (simp add: initial_view_def js_def)
qed

section \<open>Local checks\<close>

text \<open>
  C4.  A submission made while the API base address is not set (\<open>!API_URL\<close>:
  undefined, or the empty string) issues no request and sets the error to
  \<open>VITE_API_URL is not configured.\<close>, whatever the query and whatever the network
  would have answered.
\<close>

theorem unconfigured_submission_fails_fast:
  assumes "\<not> configured API_URL"
  shows "snd (handleSubmit rt API_URL out s) = [] \<and>
         error (fst (handleSubmit rt API_URL out s)) = Some (js ''VITE_API_URL is not configured.'')"
  using assms by (simp add: handleSubmit_local sync_unconfigured config_error_def)

theorem unconfigured_submission_fails_fast_witness:
  "\<not> configured None \<and>
   snd (handleSubmit example_runtime None (FetchRejected (JsError [])) initial_view) = [] \<and>
   error (fst (handleSubmit example_runtime None (FetchRejected (JsError [])) initial_view))
     = Some (js ''VITE_API_URL is not configured.'')"
  using unconfigured_submission_fails_fast
          [of None example_runtime "FetchRejected (JsError [])" initial_view]
  by simp

text \<open>
  C10.  A submission that fails locally (base address missing, or a query that
  trims to nothing) changes the error slot only: the result list, the loading flag
  and the query keep their values and no request is issued.  The configuration
  check comes first, so with both faults present the error is the configuration
  error.
\<close>

theorem local_failure_changes_error_only:
  assumes "\<not> configured API_URL \<or> trim (query s) = []"
  shows "handleSubmit rt API_URL out s =
           (s\<lparr>error := Some (if \<not> configured API_URL then config_error else validation_error)\<rparr>, [])"
  using assms by (auto simp: handleSubmit_local sync_unconfigured sync_blank)

theorem local_failure_changes_error_only_witness:
  "\<not> configured None \<and>
   trim (query shown_view) = [] \<and>
   handleSubmit example_runtime None (FetchRejected (JsError [])) shown_view =
     (shown_view\<lparr>error := Some config_error\<rparr>, []) \<and>
   results (shown_view\<lparr>error := Some config_error\<rparr>) = results shown_view \<and>
   results shown_view \<noteq> JArr [] \<and>
   loading (shown_view\<lparr>error := Some config_error\<rparr>) = loading shown_view"
  using local_failure_changes_error_only
          [of None shown_view example_runtime "FetchRejected (JsError [])"]
  by (simp add: shown_view_def trim_def is_whitespace_def js_def)

text \<open>
  C3, as amended.  A submission whose query trims to the empty string (it is then
  empty or all whitespace) issues no request; the error is
  \<open>Please type a band name.\<close> when the base address is configured, and
  \<open>VITE_API_URL is not configured.\<close> when it is not.
\<close>

theorem blank_query_submission:
  assumes "trim (query s) = []"
  shows "list_all is_whitespace (query s) \<and>
         snd (handleSubmit rt API_URL out s) = [] \<and>
         (configured API_URL \<longrightarrow>
            error (fst (handleSubmit rt API_URL out s)) = Some (js ''Please type a band name.'')) \<and>
         (\<not> configured API_URL \<longrightarrow>
            error (fst (handleSubmit rt API_URL out s)) = Some (js ''VITE_API_URL is not configured.''))"
proof -
  from assms have "list_all is_whitespace (query s)"
    by (simp only: trim_empty_iff)
  moreover from assms have "snd (handleSubmit rt API_URL out s) = []"
    by (cases "configured API_URL") (simp_all add: handleSubmit_local sync_unconfigured sync_blank)
  moreover from assms
  have "error (fst (handleSubmit rt API_URL out s)) = Some (js ''Please type a band name.'')"
    if "configured API_URL"
    using that by (simp add: handleSubmit_local sync_blank validation_error_def)
  moreover
  have "error (fst (handleSubmit rt API_URL out s)) = Some (js ''VITE_API_URL is not configured.'')"
    if "\<not> configured API_URL"
    using that by (simp add: handleSubmit_local sync_unconfigured config_error_def)
  ultimately show ?thesis
    by blast
qed

theorem blank_query_submission_witness:
  "trim (query shown_view) = [] \<and> configured (Some example_base) \<and>
   snd (handleSubmit example_runtime (Some example_base) (FetchRejected (JsError [])) shown_view) = [] \<and>
   error (fst (handleSubmit example_runtime (Some example_base) (FetchRejected (JsError [])) shown_view))
     = Some (js ''Please type a band name.'')"
proof -
  have blank: "trim (query shown_view) = []"
    by (simp add: shown_view_def trim_def is_whitespace_def js_def)
  have conf: "configured (Some example_base)"
    by (simp add: example_base_def js_def)
  show ?thesis
    using blank conf
          blank_query_submission
            [OF blank, of example_runtime "Some example_base" "FetchRejected (JsError [])"]
    by simp
qed

text \<open>
  The claim as first stated promises the validation error for every blank query.
  With no base address, typing two spaces after mount and submitting yields the
  configuration error.
\<close>

theorem blank_query_unconfigured_counterexample:
  "run True example_runtime None initial_app [Change (js ''  '')] =
     Some \<lparr>view = initial_view\<lparr>query := js ''  ''\<rparr>, in_flight = []\<rparr> \<and>
   trim (query (initial_view\<lparr>query := js ''  ''\<rparr>)) = [] \<and>
   error (fst (handleSubmit example_runtime None (FetchRejected (JsError []))
                 (initial_view\<lparr>query := js ''  ''\<rparr>)))
     \<noteq> Some (js ''Please type a band name.'')"
proof -
  have "run True example_runtime None initial_app [Change (js ''  '')] =
     Some \<lparr>view = initial_view\<lparr>query := js ''  ''\<rparr>, in_flight = []\<rparr>"
    by (simp add: initial_app_def)
  moreover have "trim (query (initial_view\<lparr>query := js ''  ''\<rparr>)) = []"
    by (simp add: trim_def is_whitespace_def js_def)
  moreover have "error (fst (handleSubmit example_runtime None (FetchRejected (JsError []))
                 (initial_view\<lparr>query := js ''  ''\<rparr>)))
     \<noteq> Some (js ''Please type a band name.'')"
    by (simp add: handleSubmit_local sync_unconfigured config_error_def js_def)
  ultimately show ?thesis
    by simp
qed

section \<open>The request\<close>

text \<open>
  C7.  The requests one submission issues: none when the base address is missing or
  empty or the query trims to nothing, otherwise exactly one, a \<open>POST\<close> to
  \<open>{base}/recommendations\<close> with the header \<open>Content-Type: application/json\<close>
  and the body \<open>{query: <trimmed query>, limit: 10}\<close>.
\<close>

theorem one_post_request_per_passing_submission:
  "snd (handleSubmit rt API_URL out s) =
     (case API_URL of
        None \<Rightarrow> []
      | Some base \<Rightarrow>
          if base \<noteq> [] \<and> trim (query s) \<noteq> [] then
            [\<lparr>url = base @ js ''/recommendations'',
              http_method = js ''POST'',
              headers = [(js ''Content-Type'', js ''application/json'')],
              body = JObj [(js ''query'', JStr (trim (query s))), (js ''limit'', JNum (Finite 10))]\<rparr>]
          else [])"
proof (cases API_URL)
  case None
  then show ?thesis
    by (simp add: handleSubmit_local sync_unconfigured)
next
  case (Some base)
  show ?thesis
  proof (cases "base \<noteq> [] \<and> trim (query s) \<noteq> []")
    case True
    with Some show ?thesis
      by (simp add: handleSubmit_dispatch recommendations_request_def)
  next
    case False
    then have "\<not> configured API_URL \<or> trim (query s) = []"
      using Some by auto
    then have "snd (handleSubmit rt API_URL out s) = []"
      by (cases "configured API_URL") (simp_all add: handleSubmit_local sync_unconfigured sync_blank)
    with Some False show ?thesis by auto
  qed
qed

theorem one_post_request_per_passing_submission_witness:
  "snd (handleSubmit example_runtime (Some example_base) (Responded results_response)
          (initial_view\<lparr>query := js '' Ghost  ''\<rparr>)) =
     [\<lparr>url = js ''https://api.example/recommendations'',
       http_method = js ''POST'',
       headers = [(js ''Content-Type'', js ''application/json'')],
       body = JObj [(js ''query'', JStr (js ''Ghost'')), (js ''limit'', JNum (Finite 10))]\<rparr>]"
  using one_post_request_per_passing_submission
          [of example_runtime "Some example_base" "Responded results_response"
              "initial_view\<lparr>query := js '' Ghost  ''\<rparr>"]
  by (simp add: example_base_def initial_view_def trim_def is_whitespace_def js_def)

section \<open>Responses\<close>

text \<open>
  C1.  When the response has a 2xx status and its body parses, the result list is
  replaced wholesale by the body's \<open>results\<close> field; if the body has no
  \<open>results\<close> field (it is missing, or it is \<open>null\<close>, which \<open>??\<close> takes for
  missing), the result list is set to the empty list.
\<close>

theorem successful_response_replaces_results:
  assumes "configured API_URL" and "trim (query s) \<noteq> []"
    and "ok res" and "json_body res = Inr json"
  shows "results (fst (handleSubmit rt API_URL (Responded res) s)) =
           (case own_field json (js ''results'') of
              None \<Rightarrow> JArr []
            | Some v \<Rightarrow> if nullish v then JArr [] else v)"
proof -
  from assms(1) obtain base where base: "API_URL = Some base" "base \<noteq> []"
    by (cases API_URL) simp_all
  from assms(3,4) have "delivered (Responded res) = Some json"
    by simp
  then have "settled_results rt (Responded res) =
      (case own_field json (js ''results'') of
         None \<Rightarrow> JArr []
       | Some v \<Rightarrow> if nullish v then JArr [] else v)"
    by (rule settled_results_delivered)
  with base assms(2) show ?thesis
    by (simp add: handleSubmit_dispatch results_resume)
qed

theorem successful_response_replaces_results_witness:
  "configured (Some example_base) \<and> trim (query initial_view) \<noteq> [] \<and>
   ok results_response \<and> ok no_results_response \<and> ok null_results_response \<and>
   results (fst (handleSubmit example_runtime (Some example_base) (Responded results_response)
                   (shown_view\<lparr>query := js ''Ghost''\<rparr>))) = JArr [ghost_band] \<and>
   results (fst (handleSubmit example_runtime (Some example_base) (Responded no_results_response)
                   initial_view)) = JArr [] \<and>
   results (fst (handleSubmit example_runtime (Some example_base) (Responded null_results_response)
                   initial_view)) = JArr []"
proof -
  have conf: "configured (Some example_base)"
    by (simp add: example_base_def js_def)
  have q: "trim (query initial_view) \<noteq> []"
    by (simp add: initial_view_def trim_def is_whitespace_def js_def)
  have q': "trim (query (shown_view\<lparr>query := js ''Ghost''\<rparr>)) \<noteq> []"
    by (simp add: trim_def is_whitespace_def js_def)
  have ok1: "ok results_response" and j1: "json_body results_response = Inr (JObj [(js ''results'', JArr [ghost_band])])"
    by (simp_all add: ok_def results_response_def)
  have ok2: "ok no_results_response" and j2: "json_body no_results_response = Inr (JObj [(js ''count'', JNum (Finite 0))])"
    by (simp_all add: ok_def no_results_response_def)
  have ok3: "ok null_results_response" and j3: "json_body null_results_response = Inr (JObj [(js ''results'', JNull)])"
    by (simp_all add: ok_def null_results_response_def)
  have "results (fst (handleSubmit example_runtime (Some example_base) (Responded results_response)
                   (shown_view\<lparr>query := js ''Ghost''\<rparr>))) = JArr [ghost_band]"
    using successful_response_replaces_results [OF conf q' ok1 j1, of example_runtime]
    by (simp add: nullish_def)
  moreover have "results (fst (handleSubmit example_runtime (Some example_base) (Responded no_results_response)
                   initial_view)) = JArr []"
    using successful_response_replaces_results [OF conf q ok2 j2, of example_runtime]
    by (simp add: js_def)
  moreover have "results (fst (handleSubmit example_runtime (Some example_base) (Responded null_results_response)
                   initial_view)) = JArr []"
    using successful_response_replaces_results [OF conf q ok3 j3, of example_runtime]
    by (simp add: nullish_def)
  ultimately show ?thesis
    using conf q ok1 ok2 ok3 by simp
qed

text \<open>
  C2.  When the response has a non-2xx status and its body text has been read, the
  error is the body text if that is non-empty and \<open>HTTP <status>\<close> otherwise, the
  banner shows it after \<open>Error: \<close>, and the result list is empty.
\<close>

theorem failed_status_reports_body_or_status:
  assumes "configured API_URL" and "trim (query s) \<noteq> []"
    and "\<not> ok res" and "text_body res = Inr txt"
  shows "error (fst (handleSubmit rt API_URL (Responded res) s)) =
           Some (if txt \<noteq> [] then txt else js ''HTTP '' @ dec (status res)) \<and>
         error_banner (fst (handleSubmit rt API_URL (Responded res) s)) =
           Some (js ''Error: '' @ (if txt \<noteq> [] then txt else js ''HTTP '' @ dec (status res))) \<and>
         results (fst (handleSubmit rt API_URL (Responded res) s)) = JArr []"
proof -
  let ?msg = "if txt \<noteq> [] then txt else js ''HTTP '' @ dec (status res)"
  let ?s' = "handleSubmit_resume rt (Responded res) (s\<lparr>error := None, loading := True\<rparr>)"
  from assms(1) obtain base where base: "API_URL = Some base" "base \<noteq> []"
    by (cases API_URL) simp_all
  have run: "fst (handleSubmit rt API_URL (Responded res) s) = ?s'"
    using base assms(2) by (simp add: handleSubmit_dispatch)
  have thrown: "try_block rt (Responded res) = Inl (JsError ?msg)"
    using assms(3,4) by (rule try_block_not_ok)
  have ne: "?msg \<noteq> []"
    by (simp add: js_def)
  have e: "error ?s' = Some ?msg"
    using error_resume_thrown [OF thrown, of "s\<lparr>error := None, loading := True\<rparr>"] ne
    by simp
  have b: "error_banner ?s' = Some (js ''Error: '' @ ?msg)"
    unfolding error_banner_def e using ne by simp
  have r: "results ?s' = JArr []"
    using thrown by (simp add: results_resume settled_results_def)
  from e b r show ?thesis
    unfolding run by simp
qed

theorem failed_status_reports_body_or_status_witness:
  "configured (Some example_base) \<and> trim (query initial_view) \<noteq> [] \<and>
   \<not> ok rate_limited_response \<and> \<not> ok empty_error_response \<and>
   error_banner (fst (handleSubmit example_runtime (Some example_base)
                        (Responded rate_limited_response) initial_view))
     = Some (js ''Error: rate limited'') \<and>
   error_banner (fst (handleSubmit example_runtime (Some example_base)
                        (Responded empty_error_response) initial_view))
     = Some (js ''Error: HTTP 500'') \<and>
   results (fst (handleSubmit example_runtime (Some example_base)
                   (Responded rate_limited_response) (shown_view\<lparr>query := js ''Ghost''\<rparr>)))
     = JArr []"
proof -
  have conf: "configured (Some example_base)"
    by (simp add: example_base_def js_def)
  have q: "trim (query initial_view) \<noteq> []"
    by (simp add: initial_view_def trim_def is_whitespace_def js_def)
  have q': "trim (query (shown_view\<lparr>query := js ''Ghost''\<rparr>)) \<noteq> []"
    by (simp add: trim_def is_whitespace_def js_def)
  have n1: "\<not> ok rate_limited_response" and t1: "text_body rate_limited_response = Inr (js ''rate limited'')"
    by (simp_all add: ok_def rate_limited_response_def)
  have n2: "\<not> ok empty_error_response" and t2: "text_body empty_error_response = Inr []"
    by (simp_all add: ok_def empty_error_response_def)
  have d: "dec (status empty_error_response) = js ''500''"
    by (simp add: empty_error_response_def dec_below_10 dec_from_10 digit_def js_def)
  have "error_banner (fst (handleSubmit example_runtime (Some example_base)
                        (Responded rate_limited_response) initial_view))
          = Some (js ''Error: rate limited'')"
    using failed_status_reports_body_or_status [OF conf q n1 t1, of example_runtime]
    by (simp add: js_def)
  moreover have "error_banner (fst (handleSubmit example_runtime (Some example_base)
                        (Responded empty_error_response) initial_view))
          = Some (js ''Error: HTTP 500'')"
    using failed_status_reports_body_or_status [OF conf q n2 t2, of example_runtime]
    by (simp add: d) (simp add: js_def)
  moreover have "results (fst (handleSubmit example_runtime (Some example_base)
                   (Responded rate_limited_response) (shown_view\<lparr>query := js ''Ghost''\<rparr>)))
          = JArr []"
    using failed_status_reports_body_or_status [OF conf q' n1 t1, of example_runtime]
    by simp
  ultimately show ?thesis
    using conf q n1 n2 by simp
qed

section \<open>The component over time: loading flag and result list\<close>

text \<open>
  C5.  A submission that dispatches a request sets the loading flag; the resumed
  handler clears it whatever the outcome (a 2xx response, a non-2xx response, a
  rejected \<open>fetch\<close>, a body that fails to parse).  In every state the component
  reaches through its form, the flag is set exactly when a request is in flight, and
  at most one is.
\<close>

theorem loading_set_while_request_in_flight:
  "(snd (handleSubmit_sync API_URL s) \<noteq> [] \<longrightarrow> loading (fst (handleSubmit_sync API_URL s))) \<and>
   \<not> loading (handleSubmit_resume rt out s) \<and>
   (run True rt API_URL initial_app evs = Some a \<longrightarrow>
      (loading (view a) \<longleftrightarrow> in_flight a \<noteq> []) \<and> length (in_flight a) \<le> 1)"
proof -
  have "loading (view initial_app) \<longleftrightarrow> in_flight initial_app \<noteq> []"
    and "length (in_flight initial_app) \<le> 1"
    by (simp_all add: initial_app_def initial_view_def)
  then have "(loading (view a) \<longleftrightarrow> in_flight a \<noteq> []) \<and> length (in_flight a) \<le> 1"
    if "run True rt API_URL initial_app evs = Some a"
    using that by (rule run_invariant_with_button)
  then show ?thesis
    by (simp add: sync_loading loading_resume)
qed

theorem loading_set_while_request_in_flight_witness:
  "run True example_runtime (Some example_base) initial_app [Submit] =
     Some \<lparr>view = initial_view\<lparr>loading := True\<rparr>,
           in_flight = [recommendations_request example_base (js ''Ghost'')]\<rparr> \<and>
   loading (view (the (run True example_runtime (Some example_base) initial_app [Submit]))) \<and>
   run True example_runtime (Some example_base) initial_app
       [Submit, Change (js ''Opeth''), Settle 0 (Responded rate_limited_response)] =
     Some \<lparr>view = \<lparr>query = js ''Opeth'', results = JArr [], loading = False,
                    error = Some (js ''rate limited'')\<rparr>,
           in_flight = []\<rparr> \<and>
   \<not> loading (handleSubmit_resume example_runtime (FetchRejected (JsError (js ''Failed to fetch'')))
                 (initial_view\<lparr>loading := True\<rparr>))"
proof -
  let ?a1 = "\<lparr>view = initial_view\<lparr>loading := True\<rparr>,
              in_flight = [recommendations_request example_base (js ''Ghost'')]\<rparr>"
  have q: "trim (js ''Ghost'') = js ''Ghost''"
    by (simp add: trim_def is_whitespace_def js_def)
  have b: "example_base \<noteq> []"
    by (simp add: example_base_def js_def)
  have sync: "handleSubmit_sync (Some example_base) initial_view =
                (initial_view\<lparr>loading := True\<rparr>, [recommendations_request example_base (js ''Ghost'')])"
    using b by (simp add: handleSubmit_sync_def initial_view_def q Let_def) (simp add: js_def)
  have r1: "run True example_runtime (Some example_base) initial_app [Submit] = Some ?a1"
    by (simp add: initial_app_def sync) (simp add: initial_view_def)
  have t: "try_block example_runtime (Responded rate_limited_response) = Inl (JsError (js ''rate limited''))"
    by (simp add: try_block_def ok_def rate_limited_response_def js_def)
  have r2: "run True example_runtime (Some example_base) initial_app
       [Submit, Change (js ''Opeth''), Settle 0 (Responded rate_limited_response)] =
     Some \<lparr>view = \<lparr>query = js ''Opeth'', results = JArr [], loading = False,
                    error = Some (js ''rate limited'')\<rparr>,
           in_flight = []\<rparr>"
    by (simp add: initial_app_def sync handleSubmit_resume_def t) (simp add: initial_view_def js_def)
  note inst = loading_set_while_request_in_flight
     [of "Some example_base" initial_view example_runtime
         "FetchRejected (JsError (js ''Failed to fetch''))" "[Submit]" ?a1]
  from inst r1 have "loading (view ?a1)"
    by simp
  with r1 have l1: "loading (view (the (run True example_runtime (Some example_base) initial_app [Submit])))"
    by simp
  from loading_set_while_request_in_flight
     [of "Some example_base" initial_view example_runtime
         "FetchRejected (JsError (js ''Failed to fetch''))" "[Submit]" ?a1,
      THEN conjunct2, THEN conjunct1]
  have l2: "\<not> loading (handleSubmit_resume example_runtime (FetchRejected (JsError (js ''Failed to fetch'')))
                 (initial_view\<lparr>loading := True\<rparr>))"
    by (simp add: loading_resume)
  from r1 l1 r2 l2 show ?thesis
    by simp
qed

text \<open>
  C6.  In every state the component reaches, the result list is empty or is the
  \<open>results\<close> field of the most recent successful response; in particular it is
  empty at mount.  A settled request sets it to a value that does not depend on the
  list it replaces: the delivered \<open>results\<close> field (the empty list when that is
  missing or \<open>null\<close>) after a success, the empty list after a failure.
\<close>

theorem results_empty_or_latest_success:
  "(run guarded rt API_URL initial_app evs = Some a \<longrightarrow>
      results (view a) = JArr [] \<or>
      (\<exists>json. last_delivered evs = Some json \<and>
              own_field json (js ''results'') = Some (results (view a)))) \<and>
   results (handleSubmit_resume rt out s) =
     (case delivered out of
        None \<Rightarrow> JArr []
      | Some json \<Rightarrow>
          (case own_field json (js ''results'') of
             None \<Rightarrow> JArr []
           | Some v \<Rightarrow> if nullish v then JArr [] else v))"
proof -
  have trace: "results (view a) = JArr [] \<or>
      (\<exists>json. last_delivered evs = Some json \<and>
              own_field json (js ''results'') = Some (results (view a)))"
    if r: "run guarded rt API_URL initial_app evs = Some a"
  proof (cases "last_settled evs")
    case None
    with run_results [OF r] show ?thesis
      by (simp add: initial_app_def initial_view_def)
  next
    case (Some out')
    with run_results [OF r] have res: "results (view a) = settled_results rt out'"
      by simp
    show ?thesis
    proof (cases "delivered out'")
      case None
      then show ?thesis
        using res by (simp add: settled_results_failed)
    next
      case (Some json)
      have ld: "last_delivered evs = Some json"
        using \<open>last_settled evs = Some out'\<close> Some by (rule last_delivered_settled)
      from res settled_results_delivered [OF Some, of rt]
      have "results (view a) =
          (case own_field json (js ''results'') of
             None \<Rightarrow> JArr []
           | Some v \<Rightarrow> if nullish v then JArr [] else v)"
        by simp
      with ld show ?thesis
        by (auto split: option.splits if_splits)
    qed
  qed
  have settle: "results (handleSubmit_resume rt out s) =
     (case delivered out of
        None \<Rightarrow> JArr []
      | Some json \<Rightarrow>
          (case own_field json (js ''results'') of
             None \<Rightarrow> JArr []
           | Some v \<Rightarrow> if nullish v then JArr [] else v))"
  proof (cases "delivered out")
    case None
    then show ?thesis
      by (simp add: results_resume settled_results_failed)
  next
    case (Some json)
    then show ?thesis
      by (simp add: results_resume settled_results_delivered)
  qed
  from trace settle show ?thesis
    by blast
qed

theorem results_empty_or_latest_success_witness:
  "run False example_runtime (Some example_base) initial_app
       [Submit, Settle 0 (Responded results_response), Change (js ''  ''), Submit] =
     Some \<lparr>view = \<lparr>query = js ''  '', results = JArr [ghost_band], loading = False,
                    error = Some validation_error\<rparr>,
           in_flight = []\<rparr> \<and>
   last_delivered [Submit, Settle 0 (Responded results_response), Change (js ''  ''), Submit] =
     Some (JObj [(js ''results'', JArr [ghost_band])]) \<and>
   (JArr [ghost_band] = JArr [] \<or>
    own_field (JObj [(js ''results'', JArr [ghost_band])]) (js ''results'') = Some (JArr [ghost_band])) \<and>
   results (handleSubmit_resume example_runtime (Responded rate_limited_response)
              (initial_view\<lparr>results := JArr [ghost_band]\<rparr>)) = JArr []"
proof -
  let ?evs = "[Submit, Settle 0 (Responded results_response), Change (js ''  ''), Submit]"
  let ?a = "\<lparr>view = \<lparr>query = js ''  '', results = JArr [ghost_band], loading = False,
                      error = Some validation_error\<rparr>,
             in_flight = []\<rparr>"
  have q: "trim (js ''Ghost'') = js ''Ghost''" and q': "trim (js ''  '') = []"
    by (simp_all add: trim_def is_whitespace_def js_def)
  have b: "example_base \<noteq> []"
    by (simp add: example_base_def js_def)
  have sync: "handleSubmit_sync (Some example_base) initial_view =
                (initial_view\<lparr>loading := True\<rparr>, [recommendations_request example_base (js ''Ghost'')])"
    using b by (simp add: handleSubmit_sync_def initial_view_def q Let_def) (simp add: js_def)
  have t: "try_block example_runtime (Responded results_response) = Inr (JArr [ghost_band])"
    by (simp add: try_block_def ok_def results_response_def nullish_def)
  have r: "run False example_runtime (Some example_base) initial_app ?evs = Some ?a"
    using b
    by (simp add: initial_app_def sync handleSubmit_resume_def t)
       (simp add: handleSubmit_sync_def initial_view_def q')
  have d: "last_delivered ?evs = Some (JObj [(js ''results'', JArr [ghost_band])])"
    by (simp add: ok_def results_response_def)
  have n: "delivered (Responded rate_limited_response) = None"
    by (simp add: ok_def rate_limited_response_def)
  note inst = results_empty_or_latest_success
     [of False example_runtime "Some example_base" ?evs ?a "Responded rate_limited_response"
         "initial_view\<lparr>results := JArr [ghost_band]\<rparr>"]
  from inst r d have "JArr [ghost_band] = JArr [] \<or>
      own_field (JObj [(js ''results'', JArr [ghost_band])]) (js ''results'') = Some (JArr [ghost_band])"
    by simp
  moreover from inst n have "results (handleSubmit_resume example_runtime (Responded rate_limited_response)
              (initial_view\<lparr>results := JArr [ghost_band]\<rparr>)) = JArr []"
    by simp
  ultimately show ?thesis
    using r d by simp
qed

section \<open>Rendering a band record\<close>

text \<open>
  C8.  For a band record whose \<open>country_code\<close> is a (non-empty) string, the flag
  image is rendered and its URL is \<open>https://flagcdn.com/24x18/\<close>, the lower-cased
  code, \<open>.png\<close>; lower-casing maps the ASCII capitals to the small letters, so
  the code \<open>DE\<close> gives a URL ending in \<open>/de.png\<close>.  For a record with no
  \<open>country_code\<close> (the field missing, or holding a falsy value such as \<open>null\<close>
  or the empty string) no flag image is rendered.
\<close>

theorem flag_url_from_country_code:
  "(own_field (JObj kvs) (js ''country_code'') = Some (JStr c) \<and> c \<noteq> [] \<longrightarrow>
      flag_image_src rt (JObj kvs) =
        Inr (Some (js ''https://flagcdn.com/24x18/'' @ toLowerCase rt c @ js ''.png''))) \<and>
   (list_all (\<lambda>u. u < 0x80) c \<longrightarrow> toLowerCase rt c = map ascii_lower c) \<and>
   js ''https://flagcdn.com/24x18/'' @ toLowerCase rt (js ''DE'') @ js ''.png'' =
     js ''https://flagcdn.com/24x18'' @ js ''/de.png'' \<and>
   (own_field (JObj kvs) (js ''country_code'') = None \<longrightarrow> flag_image_src rt (JObj kvs) = Inr None) \<and>
   (own_field (JObj kvs) (js ''country_code'') = Some v \<and> \<not> truthy v \<longrightarrow>
      flag_image_src rt (JObj kvs) = Inr None)"
proof -
  have url: "flag_image_src rt (JObj kvs) =
        Inr (Some (js ''https://flagcdn.com/24x18/'' @ toLowerCase rt c @ js ''.png''))"
    if "own_field (JObj kvs) (js ''country_code'') = Some (JStr c)" and "c \<noteq> []"
  proof -
    have "js ''https://flagcdn.com/24x18/'' @ toLowerCase rt c @ js ''.png'' \<noteq> []"
      by (simp add: js_def)
    with that show ?thesis
      by (simp add: flag_image_src_def getFlagUrl_def)
  qed
  have lower: "toLowerCase rt c = map ascii_lower c" if "list_all (\<lambda>u. u < 0x80) c"
    using that by (simp add: toLowerCase_def)
  have de: "toLowerCase rt (js ''DE'') = js ''de''"
    by (simp add: toLowerCase_def ascii_lower_def js_def)
  have ex: "js ''https://flagcdn.com/24x18/'' @ toLowerCase rt (js ''DE'') @ js ''.png'' =
     js ''https://flagcdn.com/24x18'' @ js ''/de.png''"
    unfolding de by (simp add: js_def)
  have none: "flag_image_src rt (JObj kvs) = Inr None"
    if "own_field (JObj kvs) (js ''country_code'') = None"
    using that by (simp add: flag_image_src_def getFlagUrl_def)
  have falsy: "flag_image_src rt (JObj kvs) = Inr None"
    if "own_field (JObj kvs) (js ''country_code'') = Some v" and "\<not> truthy v"
    using that by (simp add: flag_image_src_def getFlagUrl_def)
  from url lower ex none falsy show ?thesis
    by blast
qed

theorem flag_url_from_country_code_witness:
  "own_field german_band (js ''country_code'') = Some (JStr (js ''DE'')) \<and>
   flag_image_src example_runtime german_band = Inr (Some (js ''https://flagcdn.com/24x18/de.png'')) \<and>
   own_field bare_band (js ''country_code'') = None \<and>
   flag_image_src example_runtime bare_band = Inr None"
proof -
  let ?g = "[(js ''id'', JNum (Finite 3)), (js ''name'', JStr (js ''Rammstein'')),
           (js ''country_code'', JStr (js ''DE'')),
           (js ''score'', JNum (Finite (2223877495995551 / 18014398509481984)))]"
  let ?b = "[(js ''id'', JNum (Finite 4)), (js ''name'', JStr (js ''Opeth'')), (js ''score'', JNull)]"
  have g: "own_field (JObj ?g) (js ''country_code'') = Some (JStr (js ''DE''))"
    by (simp add: js_def)
  have ne: "js ''DE'' \<noteq> []"
    by (simp add: js_def)
  have b: "own_field (JObj ?b) (js ''country_code'') = None"
    by (simp add: js_def)
  have cat: "js ''https://flagcdn.com/24x18'' @ js ''/de.png'' = js ''https://flagcdn.com/24x18/de.png''"
    by (simp add: js_def)
  from flag_url_from_country_code [of ?g "js ''DE''" example_runtime JNull] g ne
  have "flag_image_src example_runtime (JObj ?g) = Inr (Some (js ''https://flagcdn.com/24x18/de.png''))"
    by (simp only: cat simp_thms)
  moreover from flag_url_from_country_code [of ?b "js ''DE''" example_runtime JNull] b
  have "flag_image_src example_runtime (JObj ?b) = Inr None"
    by (simp only: simp_thms)
  ultimately show ?thesis
    using g b unfolding german_band_def bare_band_def by (simp only: simp_thms)
qed

text \<open>
  C9, as amended.  For a band record whose \<open>score\<close> is a finite number of
  magnitude below \<open>10^21\<close>, the caption shows \<open>similarity: \<close> followed by the
  score with exactly three decimal places (and a space); the score \<open>0.12345\<close>
  shows as \<open>similarity: 0.123\<close>.  A record with neither a numeric \<open>score\<close> nor
  a numeric \<open>popularity\<close> shows neither fragment.
\<close>

theorem score_shown_with_three_decimals:
  "(numeric_field (JObj kvs) (js ''score'') = Some (Finite x) \<and> \<bar>x\<bar> < 10 ^ 21 \<longrightarrow>
      similarity_fragment rt (JObj kvs) =
        Inr (Some (js ''similarity: '' @ toFixed rt 3 (Finite x) @ js '' '')) \<and>
      three_decimals (toFixed rt 3 (Finite x))) \<and>
   toFixed rt 3 (Finite (12345 / 100000)) = js ''0.123'' \<and>
   (numeric_field (JObj kvs) (js ''score'') = None \<and>
    numeric_field (JObj kvs) (js ''popularity'') = None \<longrightarrow>
      similarity_fragment rt (JObj kvs) = Inr None \<and> popularity_fragment rt (JObj kvs) = Inr None)"
proof -
  have shown: "similarity_fragment rt (JObj kvs) =
        Inr (Some (js ''similarity: '' @ toFixed rt 3 (Finite x) @ js '' ''))"
    if "numeric_field (JObj kvs) (js ''score'') = Some (Finite x)"
    using that
    by (auto simp: similarity_fragment_def numeric_field_def split: option.splits)
  have places: "three_decimals (toFixed rt 3 (Finite x))" if "\<bar>x\<bar> < 10 ^ 21"
    using that by (rule toFixed_three_decimals)
  have nearest: "\<lfloor>\<bar>12345 / 100000 :: rat\<bar> * 10 ^ 3 + 1 / 2\<rfloor> = 123"
    by (simp add: floor_eq_iff)
  have example: "toFixed rt 3 (Finite (12345 / 100000)) = js ''0.123''"
    unfolding toFixed.simps toFixed_digits_def Let_def nearest
    by (simp add: dec_below_10 dec_from_10 digit_def js_def)
  have no_score: "similarity_fragment rt (JObj kvs) = Inr None"
    if "numeric_field (JObj kvs) (js ''score'') = None"
    using that
    by (auto simp: similarity_fragment_def numeric_field_def split: option.splits)
  have no_popularity: "popularity_fragment rt (JObj kvs) = Inr None"
    if "numeric_field (JObj kvs) (js ''popularity'') = None"
    using that
    by (auto simp: popularity_fragment_def numeric_field_def split: option.splits)
  from shown places example no_score no_popularity show ?thesis
    by blast
qed

theorem score_shown_with_three_decimals_witness:
  "numeric_field german_band (js ''score'') = Some (Finite (2223877495995551 / 18014398509481984)) \<and>
   similarity_fragment example_runtime german_band = Inr (Some (js ''similarity: 0.123 '')) \<and>
   three_decimals (js ''0.123'') \<and>
   numeric_field bare_band (js ''score'') = None \<and>
   numeric_field bare_band (js ''popularity'') = None \<and>
   similarity_fragment example_runtime bare_band = Inr None \<and>
   popularity_fragment example_runtime bare_band = Inr None"
proof -
  let ?x = "2223877495995551 / 18014398509481984 :: rat"
  let ?g = "[(js ''id'', JNum (Finite 3)), (js ''name'', JStr (js ''Rammstein'')),
           (js ''country_code'', JStr (js ''DE'')),
           (js ''score'', JNum (Finite ?x))]"
  let ?b = "[(js ''id'', JNum (Finite 4)), (js ''name'', JStr (js ''Opeth'')), (js ''score'', JNull)]"
  have g: "numeric_field (JObj ?g) (js ''score'') = Some (Finite ?x)"
    by (simp add: numeric_field_def js_def)
  have small: "\<bar>?x\<bar> < 10 ^ 21"
    by simp
  have nearest: "\<lfloor>\<bar>?x\<bar> * 10 ^ 3 + 1 / 2\<rfloor> = 123"
    by (simp add: floor_eq_iff)
  have fixed: "toFixed example_runtime 3 (Finite ?x) = js ''0.123''"
    unfolding toFixed.simps toFixed_digits_def Let_def nearest
    by (simp add: dec_below_10 dec_from_10 digit_def js_def)
  have cat: "js ''similarity: '' @ js ''0.123'' @ js '' '' = js ''similarity: 0.123 ''"
    by (simp add: js_def)
  have b1: "numeric_field (JObj ?b) (js ''score'') = None"
    and b2: "numeric_field (JObj ?b) (js ''popularity'') = None"
    by (simp_all add: numeric_field_def js_def)
  from score_shown_with_three_decimals [of ?g ?x example_runtime] g small
  have "similarity_fragment example_runtime (JObj ?g) = Inr (Some (js ''similarity: 0.123 ''))"
    and "three_decimals (js ''0.123'')"
    by (simp_all only: fixed cat simp_thms)
  moreover from score_shown_with_three_decimals [of ?b ?x example_runtime] b1 b2
  have "similarity_fragment example_runtime (JObj ?b) = Inr None"
    and "popularity_fragment example_runtime (JObj ?b) = Inr None"
    by (simp_all only: simp_thms)
  ultimately show ?thesis
    using g b1 b2 unfolding german_band_def bare_band_def by (simp only: simp_thms)
qed

text \<open>
  The claim as first stated covers every numeric score.  The score \<open>Infinity\<close>
  (what \<open>JSON.parse\<close> makes of \<open>1e999\<close>) passes the \<open>typeof\<close> test and is shown
  as \<open>similarity: Infinity\<close>, with no decimal places; from \<open>10^21\<close> on
  \<open>toFixed\<close> likewise answers with the plain conversion of the number.
\<close>

theorem infinite_score_counterexample:
  "numeric_field overflow_band (js ''score'') = Some PosInfinity \<and>
   similarity_fragment example_runtime overflow_band = Inr (Some (js ''similarity: Infinity '')) \<and>
   \<not> three_decimals (js ''Infinity'')"
proof -
  have "numeric_field overflow_band (js ''score'') = Some PosInfinity"
    by (simp add: overflow_band_def numeric_field_def js_def)
  moreover have "similarity_fragment example_runtime overflow_band =
      Inr (Some (js ''similarity: '' @ js ''Infinity'' @ js '' ''))"
    by (simp add: overflow_band_def similarity_fragment_def) (simp add: js_def)
  moreover have "js ''similarity: '' @ js ''Infinity'' @ js '' '' = js ''similarity: Infinity ''"
    by (simp add: js_def)
  moreover have "\<not> three_decimals (js ''Infinity'')"
    by (simp add: three_decimals_def js_def is_digit_def)
  ultimately show ?thesis
    by simp
qed

end
